theory Spec2Isabelle
  imports Main
begin

section \<open>Parsed documents\<close>

text \<open>
  What \<^verbatim>\<open>yaml.safe_load\<close> and \<^verbatim>\<open>json.load\<close> hand to the program: \<^verbatim>\<open>None\<close>, booleans,
  numbers, strings, lists and dicts. A dict is an association list; \<^verbatim>\<open>map_of\<close> is the
  lookup (a Python dict holds every key once, so the order of the list is immaterial).
  YAML allows keys that are not strings, so the keys are values too. The program never
  computes with a float, which is kept as its literal.
\<close>

datatype pyvalue =
    PNone
  | PBool bool
  | PInt int
  | PFloat string
  | PStr string
  | PList "pyvalue list"
  | PDict "(pyvalue \<times> pyvalue) list"

section \<open>Exceptions\<close>

text \<open>
  The exception classes the program raises, catches or can meet, each with the text that
  \<^verbatim>\<open>str(e)\<close> gives. \<^verbatim>\<open>json.JSONDecodeError(msg, doc, pos)\<close> renders as \<^verbatim>\<open>msg\<close> followed by
  the location \<^verbatim>\<open>": line l column c (char pos)"\<close>, which is computed from \<^verbatim>\<open>doc\<close> and
  \<^verbatim>\<open>pos\<close>: the second field is that location suffix. \<open>OtherError\<close> is any further
  class a library or the operating system raises (\<^verbatim>\<open>IsADirectoryError\<close>,
  \<^verbatim>\<open>PermissionError\<close>, \<^verbatim>\<open>UnicodeDecodeError\<close>, \<^verbatim>\<open>jsonschema.SchemaError\<close>, ...); the
  program only ever meets these where it catches \<^verbatim>\<open>Exception\<close>.
\<close>

datatype exc =
    FileNotFoundError string
  | ValueError string
  | YAMLError string
  | JSONDecodeError string string
  | ValidationError string
  | TypeError string
  | KeyError string
  | OtherError string
  | Exception string

text \<open>A text between apostrophes, as \<^verbatim>\<open>repr\<close> writes a plain string.\<close>

definition quoted :: "string \<Rightarrow> string" where
  "quoted s = CHR 0x27 # s @ [CHR 0x27]"

fun py_str :: "exc \<Rightarrow> string" where
  "py_str (FileNotFoundError m) = m"
| "py_str (ValueError m) = m"
| "py_str (YAMLError m) = m"
| "py_str (JSONDecodeError m loc) = m @ loc"
| "py_str (ValidationError m) = m"
| "py_str (TypeError m) = m"
| "py_str (KeyError k) = quoted k"
| "py_str (OtherError m) = m"
| "py_str (Exception m) = m"

section \<open>The environment of a run\<close>

text \<open>
  The program reaches the outside world through five library calls, which are parameters
  of the model: \<^verbatim>\<open>os.path.exists\<close>, \<^verbatim>\<open>open(path, 'r')\<close>, \<^verbatim>\<open>yaml.safe_load\<close>,
  \<^verbatim>\<open>json.load\<close> and \<^verbatim>\<open>jsonschema.validate\<close>. \<open>'f\<close> is the type of an open file. A call
  that raises returns \<open>Inl\<close> of the exception.
\<close>

record 'f env =
  path_exists :: "string \<Rightarrow> bool"
  open_file :: "string \<Rightarrow> exc + 'f"
  yaml_safe_load :: "'f \<Rightarrow> exc + pyvalue"
  json_load :: "'f \<Rightarrow> exc + pyvalue"
  jsonschema_validate :: "pyvalue \<Rightarrow> pyvalue \<Rightarrow> exc + unit"

section \<open>Runs: a trace of effects and a result\<close>

datatype level = DEBUG | INFO | WARNING | ERROR | CRITICAL

text \<open>
  The effects of a run, in the order they happen: the calls to the environment, the calls
  to \<^verbatim>\<open>logging\<close> (whatever the level of the logger lets through) and the exit status of
  the process.
\<close>

datatype event =
    Exists string
  | Open string
  | YamlLoad
  | JsonLoad
  | Validate
  | SetLevel level
  | Log level string
  | Exit nat

type_synonym 'a run = "event list \<times> (exc + 'a)"

definition raise :: "exc \<Rightarrow> 'a run" where
  "raise e = ([], Inl e)"

definition emit :: "event \<Rightarrow> unit run" where
  "emit ev = ([ev], Inr ())"

definition lift :: "exc + 'a \<Rightarrow> 'a run" where
  "lift r = ([], r)"

text \<open>Sequencing: an exception of the first part skips the second.\<close>

definition then_do :: "'a run \<Rightarrow> ('a \<Rightarrow> 'b run) \<Rightarrow> 'b run" where
  "then_do m f =
     (case m of
        (tr, Inl e) \<Rightarrow> (tr, Inl e)
      | (tr, Inr x) \<Rightarrow> (case f x of (tr', r) \<Rightarrow> (tr @ tr', r)))"

text \<open>\<^verbatim>\<open>try: m except ... as e: h e\<close>, where \<open>h\<close> stands for all the except clauses.\<close>

definition try_except :: "'a run \<Rightarrow> (exc \<Rightarrow> 'a run) \<Rightarrow> 'a run" where
  "try_except m h =
     (case m of
        (tr, Inl e) \<Rightarrow> (case h e of (tr', r) \<Rightarrow> (tr @ tr', r))
      | (tr, Inr x) \<Rightarrow> (tr, Inr x))"

section \<open>Loading the configuration file\<close>

text \<open>\<^verbatim>\<open>s.endswith(suf)\<close>\<close>

definition endswith :: "string \<Rightarrow> string \<Rightarrow> bool" where
  "endswith s suf \<longleftrightarrow> length suf \<le> length s \<and> drop (length s - length suf) s = suf"

text \<open>The block under \<^verbatim>\<open>if file_type is None\<close> of \<^verbatim>\<open>load_config_file\<close>.\<close>

definition detect_type :: "string \<Rightarrow> string option \<Rightarrow> exc + string" where
  "detect_type config_file file_type =
     (case file_type of
        Some t \<Rightarrow> Inr t
      | None \<Rightarrow>
          if endswith config_file ''.yaml'' \<or> endswith config_file ''.yml'' then Inr ''yaml''
          else if endswith config_file ''.json'' then Inr ''json''
          else Inl (ValueError ''Could not determine the file type. Please specify with --type''))"

text \<open>
  The except clauses of \<^verbatim>\<open>load_config_file\<close>, in their order: \<^verbatim>\<open>yaml.YAMLError\<close>,
  \<^verbatim>\<open>json.JSONDecodeError\<close>, then \<^verbatim>\<open>Exception\<close>, which is every other class.
\<close>

fun config_except :: "exc \<Rightarrow> exc" where
  "config_except (YAMLError m) = YAMLError (''Error parsing YAML file: '' @ m)"
| "config_except (JSONDecodeError m loc) =
     JSONDecodeError (''Error parsing JSON file: '' @ m @ loc) loc"
| "config_except e =
     Exception (''An unexpected error occurred while loading the configuration: '' @ py_str e)"

definition load_config_file :: "'f env \<Rightarrow> string \<Rightarrow> string option \<Rightarrow> pyvalue run" where
  "load_config_file env config_file file_type =
     then_do (emit (Exists config_file)) (\<lambda>_.
       if \<not> path_exists env config_file
       then raise (FileNotFoundError (''Configuration file not found: '' @ config_file))
       else
         try_except
           (then_do (emit (Open config_file)) (\<lambda>_.
            then_do (lift (open_file env config_file)) (\<lambda>f.
            then_do (lift (detect_type config_file file_type)) (\<lambda>t.
              if t = ''yaml'' then
                then_do (emit YamlLoad) (\<lambda>_. lift (yaml_safe_load env f))
              else if t = ''json'' then
                then_do (emit JsonLoad) (\<lambda>_. lift (json_load env f))
              else
                raise (ValueError
                  ''Unsupported configuration file type. Choose 'yaml' or 'json'.'')))))
           (\<lambda>e. raise (config_except e)))"

section \<open>Loading the schema file\<close>

fun schema_except :: "exc \<Rightarrow> exc" where
  "schema_except (JSONDecodeError m loc) =
     JSONDecodeError (''Error parsing JSON schema file: '' @ m @ loc) loc"
| "schema_except e =
     Exception (''An unexpected error occurred while loading the schema: '' @ py_str e)"

definition load_schema_file :: "'f env \<Rightarrow> string \<Rightarrow> pyvalue run" where
  "load_schema_file env schema_file =
     then_do (emit (Exists schema_file)) (\<lambda>_.
       if \<not> path_exists env schema_file
       then raise (FileNotFoundError (''Schema file not found: '' @ schema_file))
       else
         try_except
           (then_do (emit (Open schema_file)) (\<lambda>_.
            then_do (lift (open_file env schema_file)) (\<lambda>f.
            then_do (emit JsonLoad) (\<lambda>_. lift (json_load env f)))))
           (\<lambda>e. raise (schema_except e)))"

section \<open>Validation\<close>

fun validate_except :: "exc \<Rightarrow> exc" where
  "validate_except (ValidationError m) =
     ValidationError (''Configuration validation error: '' @ m)"
| "validate_except e =
     Exception (''An unexpected error occurred during validation: '' @ py_str e)"

definition validate_config :: "'f env \<Rightarrow> pyvalue \<Rightarrow> pyvalue \<Rightarrow> unit run" where
  "validate_config env config_data schema_data =
     try_except
       (then_do (emit Validate) (\<lambda>_. lift (jsonschema_validate env config_data schema_data)))
       (\<lambda>e. raise (validate_except e))"

section \<open>The insecure-default checks\<close>

text \<open>\<^verbatim>\<open>sub in s\<close> for two strings: \<open>sub\<close> occurs in \<open>s\<close> as a contiguous piece.\<close>

fun substring :: "string \<Rightarrow> string \<Rightarrow> bool" where
  "substring sub [] \<longleftrightarrow> sub = []"
| "substring sub (c # cs) \<longleftrightarrow> take (length sub) (c # cs) = sub \<or> substring sub cs"

text \<open>
  \<^verbatim>\<open>key in config_data\<close> for a string \<^verbatim>\<open>key\<close>: membership among the keys of a dict and
  among the elements of a list, the substring test on a string, and a \<^verbatim>\<open>TypeError\<close> on
  \<^verbatim>\<open>None\<close>, a boolean or a number (the messages are CPython's).
\<close>

definition not_iterable :: "string \<Rightarrow> exc" where
  "not_iterable tname = TypeError (''argument of type '' @ quoted tname @ '' is not iterable'')"

fun py_in :: "string \<Rightarrow> pyvalue \<Rightarrow> exc + bool" where
  "py_in k (PDict kvs) = Inr (PStr k \<in> set (map fst kvs))"
| "py_in k (PList xs) = Inr (PStr k \<in> set xs)"
| "py_in k (PStr s) = Inr (substring k s)"
| "py_in k PNone = Inl (not_iterable ''NoneType'')"
| "py_in k (PBool b) = Inl (not_iterable ''bool'')"
| "py_in k (PInt i) = Inl (not_iterable ''int'')"
| "py_in k (PFloat x) = Inl (not_iterable ''float'')"

text \<open>\<^verbatim>\<open>config_data[key]\<close> for a string \<^verbatim>\<open>key\<close>.\<close>

definition not_subscriptable :: "string \<Rightarrow> exc" where
  "not_subscriptable tname = TypeError (quoted tname @ '' object is not subscriptable'')"

fun py_getitem :: "pyvalue \<Rightarrow> string \<Rightarrow> exc + pyvalue" where
  "py_getitem (PDict kvs) k =
     (case map_of kvs (PStr k) of Some v \<Rightarrow> Inr v | None \<Rightarrow> Inl (KeyError k))"
| "py_getitem (PList xs) k =
     Inl (TypeError ''list indices must be integers or slices, not str'')"
| "py_getitem (PStr s) k =
     Inl (TypeError (''string indices must be integers, not '' @ quoted ''str''))"
| "py_getitem PNone k = Inl (not_subscriptable ''NoneType'')"
| "py_getitem (PBool b) k = Inl (not_subscriptable ''bool'')"
| "py_getitem (PInt i) k = Inl (not_subscriptable ''int'')"
| "py_getitem (PFloat x) k = Inl (not_subscriptable ''float'')"

text \<open>
  \<^verbatim>\<open>key in config_data and config_data[key] == val\<close>: the subscript is evaluated only
  when the membership test is true.
\<close>

definition has_default :: "pyvalue \<Rightarrow> string \<Rightarrow> string \<Rightarrow> exc + bool" where
  "has_default config_data key val =
     (case py_in key config_data of
        Inl e \<Rightarrow> Inl e
      | Inr False \<Rightarrow> Inr False
      | Inr True \<Rightarrow>
          (case py_getitem config_data key of
             Inl e \<Rightarrow> Inl e
           | Inr v \<Rightarrow> Inr (v = PStr val)))"

definition password_warning :: string where
  "password_warning = ''Insecure default password detected. Please change it.''"

definition admin_password_warning :: string where
  "admin_password_warning = ''Insecure default admin password detected. Please change it.''"

definition no_default_info :: string where
  "no_default_info = ''No default password found''"

text \<open>The \<^verbatim>\<open>if\<close> / \<^verbatim>\<open>elif\<close> / \<^verbatim>\<open>else\<close> chain at the end of the \<^verbatim>\<open>try\<close> block of \<^verbatim>\<open>main\<close>.\<close>

definition insecure_checks :: "pyvalue \<Rightarrow> unit run" where
  "insecure_checks config_data =
     then_do (lift (has_default config_data ''password'' ''password'')) (\<lambda>pw.
       if pw then emit (Log WARNING password_warning)
       else
         then_do (lift (has_default config_data ''admin_password'' ''admin'')) (\<lambda>adm.
           if adm then emit (Log WARNING admin_password_warning)
           else emit (Log INFO no_default_info)))"

section \<open>The main function\<close>

text \<open>What \<^verbatim>\<open>argparse\<close> hands over; \<^verbatim>\<open>-s\<close> and \<^verbatim>\<open>-t\<close> are optional.\<close>

record args =
  arg_config_file :: string
  arg_schema_file :: "string option"
  arg_type :: "string option"
  arg_log_level :: level

text \<open>\<^verbatim>\<open>if args.schema_file\<close>: \<^verbatim>\<open>None\<close> and the empty string are false.\<close>

definition schema_given :: "args \<Rightarrow> bool" where
  "schema_given a \<longleftrightarrow> (case arg_schema_file a of None \<Rightarrow> False | Some p \<Rightarrow> p \<noteq> [])"

definition valid_info :: string where
  "valid_info = ''Configuration is valid according to the schema.''"

definition skipping_warning :: string where
  "skipping_warning = ''No schema file provided. Skipping validation.''"

text \<open>The body of the \<^verbatim>\<open>try\<close> statement of \<^verbatim>\<open>main\<close>.\<close>

definition main_try :: "'f env \<Rightarrow> args \<Rightarrow> unit run" where
  "main_try env a =
     then_do (load_config_file env (arg_config_file a) (arg_type a)) (\<lambda>config_data.
     then_do (emit (Log DEBUG
        (''Configuration loaded successfully from: '' @ arg_config_file a))) (\<lambda>_.
     then_do
       (if schema_given a then
          then_do (load_schema_file env (the (arg_schema_file a))) (\<lambda>schema_data.
          then_do (emit (Log DEBUG
             (''Schema loaded successfully from: '' @ the (arg_schema_file a)))) (\<lambda>_.
          then_do (validate_config env config_data schema_data) (\<lambda>_.
            emit (Log INFO valid_info))))
        else emit (Log WARNING skipping_warning)) (\<lambda>_.
     insecure_checks config_data)))"

text \<open>
  The except clauses of \<^verbatim>\<open>main\<close>: the five named classes log \<^verbatim>\<open>str(e)\<close>
  (\<^verbatim>\<open>JSONDecodeError\<close> is a \<^verbatim>\<open>ValueError\<close> and is caught as one), every other class logs
  the prefixed text. Each clause then calls \<^verbatim>\<open>sys.exit(1)\<close>.
\<close>

fun main_except :: "exc \<Rightarrow> string" where
  "main_except (FileNotFoundError m) = m"
| "main_except (ValueError m) = m"
| "main_except (YAMLError m) = m"
| "main_except (JSONDecodeError m loc) = m @ loc"
| "main_except (ValidationError m) = m"
| "main_except e = ''An unexpected error occurred: '' @ py_str e"

text \<open>
  \<^verbatim>\<open>main\<close>, after the arguments are parsed: the whole trace of the process. A run whose
  \<^verbatim>\<open>try\<close> body returns ends with exit status 0.
\<close>

definition main :: "'f env \<Rightarrow> args \<Rightarrow> event list" where
  "main env a =
     SetLevel (arg_log_level a) #
     (case main_try env a of
        (tr, Inr _) \<Rightarrow> tr @ [Exit 0]
      | (tr, Inl e) \<Rightarrow> tr @ [Log ERROR (main_except e), Exit 1])"

section \<open>What a run reports\<close>

text \<open>
  The program builds no report object: what it reports is in its log. The findings of a
  trace are the warnings of the insecure-default checks; a run reports the configuration
  as validated when it logs that the configuration is valid; the violations of a result
  are the messages of the \<^verbatim>\<open>ValidationError\<close> it raises, if it raises one.
\<close>

fun finding_of :: "event \<Rightarrow> string list" where
  "finding_of (Log lv m) =
     (if lv = WARNING \<and> (m = password_warning \<or> m = admin_password_warning) then [m] else [])"
| "finding_of ev = []"

definition findings :: "event list \<Rightarrow> string list" where
  "findings tr = concat (map finding_of tr)"

definition validated :: "event list \<Rightarrow> bool" where
  "validated tr \<longleftrightarrow> Log INFO valid_info \<in> set tr"

fun violations :: "exc + 'a \<Rightarrow> string list" where
  "violations (Inl (ValidationError m)) = [m]"
| "violations r = []"

section \<open>A concrete environment\<close>

text \<open>
  For running the model on examples: a file holds either text that no parser accepts or
  the text of a document that is both JSON and YAML, so that both parsers return the same
  value. The file system is a list of paths with their contents.
\<close>

datatype content = Malformed | Text pyvalue

fun text_yaml :: "content \<Rightarrow> exc + pyvalue" where
  "text_yaml Malformed = Inl (YAMLError ''mapping values are not allowed here'')"
| "text_yaml (Text v) = Inr v"

fun text_json :: "content \<Rightarrow> exc + pyvalue" where
  "text_json Malformed = Inl (JSONDecodeError ''Expecting value'' '': line 1 column 1 (char 0)'')"
| "text_json (Text v) = Inr v"

definition files_env ::
  "(string \<times> content) list \<Rightarrow> (pyvalue \<Rightarrow> pyvalue \<Rightarrow> exc + unit) \<Rightarrow> content env" where
  "files_env files lib =
     \<lparr> path_exists = (\<lambda>p. p \<in> set (map fst files)),
       open_file = (\<lambda>p. case map_of files p of
                           Some c \<Rightarrow> Inr c
                         | None \<Rightarrow> Inl (FileNotFoundError (''No such file or directory: '' @ quoted p))),
       yaml_safe_load = text_yaml,
       json_load = text_json,
       jsonschema_validate = lib \<rparr>"

text \<open>
  A validation library for the examples, which knows the \<^verbatim>\<open>required\<close> keyword of JSON
  Schema only: the required keys that a dict lacks, and an error for the first of them.
\<close>

definition required_keys :: "pyvalue \<Rightarrow> pyvalue list" where
  "required_keys schema =
     (case schema of
        PDict kvs \<Rightarrow> (case map_of kvs (PStr ''required'') of Some (PList ks) \<Rightarrow> ks | _ \<Rightarrow> [])
      | _ \<Rightarrow> [])"

definition missing_required :: "pyvalue \<Rightarrow> pyvalue \<Rightarrow> pyvalue list" where
  "missing_required instance schema =
     (case instance of
        PDict kvs \<Rightarrow> filter (\<lambda>k. k \<notin> set (map fst kvs)) (required_keys schema)
      | _ \<Rightarrow> [])"

fun key_text :: "pyvalue \<Rightarrow> string" where
  "key_text (PStr k) = quoted k"
| "key_text v = ''?''"

definition required_only :: "pyvalue \<Rightarrow> pyvalue \<Rightarrow> exc + unit" where
  "required_only instance schema =
     (case missing_required instance schema of
        [] \<Rightarrow> Inr ()
      | k # _ \<Rightarrow> Inl (ValidationError (key_text k @ '' is a required property'')))"

section \<open>Example inputs\<close>

text \<open>
  The documents, schemas and command lines that the examples below run the program on:
  the document \<^verbatim>\<open>{"name": "db"}\<close>, the schema \<^verbatim>\<open>{"required": ["host", "port"]}\<close>,
  a document with both default passwords at its root, one with the defaults only in
  nested values, and the schema \<^verbatim>\<open>{"type": "strng"}\<close>.
\<close>

definition doc_name_only :: pyvalue where
  "doc_name_only = PDict [(PStr ''name'', PStr ''db'')]"

definition schema_host_port :: pyvalue where
  "schema_host_port = PDict [(PStr ''required'', PList [PStr ''host'', PStr ''port''])]"

definition doc_both_defaults :: pyvalue where
  "doc_both_defaults =
     PDict [(PStr ''password'', PStr ''password''), (PStr ''admin_password'', PStr ''admin'')]"

definition doc_nested_defaults :: "(pyvalue \<times> pyvalue) list" where
  "doc_nested_defaults =
     [(PStr ''database'',
       PDict [(PStr ''password'', PStr ''password''), (PStr ''admin_password'', PStr ''admin'')]),
      (PStr ''users'', PList [PDict [(PStr ''password'', PStr ''password'')]])]"

definition schema_strng :: pyvalue where
  "schema_strng = PDict [(PStr ''type'', PStr ''strng'')]"

text \<open>
  A validation library for the examples that checks the schema first, as
  \<^verbatim>\<open>jsonschema.validate\<close> does, and raises \<^verbatim>\<open>SchemaError\<close> when the \<^verbatim>\<open>type\<close> of the
  schema's root is a string that is not a type name of JSON Schema.
\<close>

definition type_names :: "string list" where
  "type_names = [''null'', ''boolean'', ''object'', ''array'', ''number'', ''integer'', ''string'']"

definition checks_root_type :: "pyvalue \<Rightarrow> pyvalue \<Rightarrow> exc + unit" where
  "checks_root_type instance schema =
     (case schema of
        PDict kvs \<Rightarrow>
          (case map_of kvs (PStr ''type'') of
             Some (PStr t) \<Rightarrow>
               if t \<in> set type_names then Inr ()
               else Inl (OtherError (quoted t @ '' is not valid under any of the given schemas''))
           | _ \<Rightarrow> Inr ())
      | _ \<Rightarrow> Inr ())"

text \<open>The text of the \<^verbatim>\<open>ValueError\<close> for a type that cannot be determined.\<close>

definition undetermined_type :: string where
  "undetermined_type = ''Could not determine the file type. Please specify with --type''"

text \<open>
  Three command lines: \<^verbatim>\<open>config.json\<close> and \<^verbatim>\<open>config.yaml\<close> without a schema, and
  \<^verbatim>\<open>config.yaml -s schema.json\<close>.
\<close>

definition args_config_json :: args where
  "args_config_json =
     \<lparr> arg_config_file = ''config.json'', arg_schema_file = None, arg_type = None,
       arg_log_level = INFO \<rparr>"

definition args_no_schema :: args where
  "args_no_schema =
     \<lparr> arg_config_file = ''config.yaml'', arg_schema_file = None, arg_type = None,
       arg_log_level = INFO \<rparr>"

definition args_with_schema :: args where
  "args_with_schema =
     \<lparr> arg_config_file = ''config.yaml'', arg_schema_file = Some ''schema.json'',
       arg_type = None, arg_log_level = INFO \<rparr>"

section \<open>Facts about the parts of a run\<close>

lemmas run_defs = raise_def emit_def lift_def then_do_def try_except_def

lemma load_config_file_missing:
  "\<not> path_exists env p \<Longrightarrow>
   load_config_file env p t =
     ([Exists p], Inl (FileNotFoundError (''Configuration file not found: '' @ p)))"
  by (simp add: load_config_file_def run_defs)

lemma load_schema_file_missing:
  "\<not> path_exists env p \<Longrightarrow>
   load_schema_file env p = ([Exists p], Inl (FileNotFoundError (''Schema file not found: '' @ p)))"
  by (simp add: load_schema_file_def run_defs)

lemma load_config_file_events:
  "set (fst (load_config_file env p t)) \<subseteq> {Exists p, Open p, YamlLoad, JsonLoad}"
  by (auto simp: load_config_file_def run_defs split: sum.splits if_splits prod.splits)

lemma load_schema_file_events:
  "set (fst (load_schema_file env p)) \<subseteq> {Exists p, Open p, JsonLoad}"
  by (auto simp: load_schema_file_def run_defs split: sum.splits if_splits prod.splits)

lemma config_except_not_validation: "config_except x \<noteq> ValidationError m"
  by (cases x) simp_all

lemma schema_except_not_validation: "schema_except x \<noteq> ValidationError m"
  by (cases x) simp_all

lemma load_config_file_not_validation:
  "snd (load_config_file env p t) \<noteq> Inl (ValidationError m)"
  by (auto simp: load_config_file_def run_defs config_except_not_validation
      split: sum.splits if_splits prod.splits)

lemma load_schema_file_not_validation:
  "snd (load_schema_file env p) \<noteq> Inl (ValidationError m)"
  by (auto simp: load_schema_file_def run_defs schema_except_not_validation
      split: sum.splits if_splits prod.splits)

lemma has_default_dict:
  "has_default (PDict kvs) k v = Inr (map_of kvs (PStr k) = Some (PStr v))"
proof (cases "map_of kvs (PStr k)")
  case None
  then have "PStr k \<notin> fst ` set kvs" by (simp add: map_of_eq_None_iff)
  with None show ?thesis by (simp add: has_default_def)
next
  case (Some x)
  then have "PStr k \<in> fst ` set kvs" by (metis map_of_eq_None_iff option.distinct(1))
  with Some show ?thesis by (simp add: has_default_def)
qed

lemma has_default_not_validation: "has_default c k v \<noteq> Inl (ValidationError m)"
  by (cases c) (auto simp: has_default_def not_iterable_def not_subscriptable_def
      split: sum.splits bool.splits option.splits)

lemma insecure_checks_cases:
  "insecure_checks c = ([Log WARNING password_warning], Inr ()) \<or>
   insecure_checks c = ([Log WARNING admin_password_warning], Inr ()) \<or>
   insecure_checks c = ([Log INFO no_default_info], Inr ()) \<or>
   (\<exists>m. insecure_checks c = ([], Inl (TypeError m))) \<or>
   (\<exists>k. insecure_checks c = ([], Inl (KeyError k)))"
  by (cases c) (auto simp: insecure_checks_def has_default_def run_defs not_iterable_def
      not_subscriptable_def split: sum.splits bool.splits option.splits)

lemma violations_empty:
  assumes "\<And>m. r \<noteq> Inl (ValidationError m)"
  shows "violations r = []"
proof (cases r)
  case (Inl e)
  with assms show ?thesis by (cases e) auto
next
  case (Inr x)
  then show ?thesis by simp
qed

lemma main_try_load_fails:
  "load_config_file env (arg_config_file a) (arg_type a) = (tr, Inl e) \<Longrightarrow>
   main_try env a = (tr, Inl e)"
  by (simp add: main_try_def then_do_def)

lemma main_try_no_schema:
  "load_config_file env (arg_config_file a) (arg_type a) = (tr, Inr c) \<Longrightarrow>
   \<not> schema_given a \<Longrightarrow>
   main_try env a =
     (tr @ [Log DEBUG (''Configuration loaded successfully from: '' @ arg_config_file a),
            Log WARNING skipping_warning] @ fst (insecure_checks c),
      snd (insecure_checks c))"
  by (simp add: main_try_def then_do_def emit_def split: prod.splits sum.splits)

lemma main_try_schema_fails:
  "load_config_file env (arg_config_file a) (arg_type a) = (tr, Inr c) \<Longrightarrow>
   schema_given a \<Longrightarrow>
   load_schema_file env (the (arg_schema_file a)) = (tr', Inl e) \<Longrightarrow>
   main_try env a =
     (tr @ [Log DEBUG (''Configuration loaded successfully from: '' @ arg_config_file a)] @ tr',
      Inl e)"
  by (simp add: main_try_def then_do_def emit_def split: prod.splits sum.splits)

section \<open>The claims\<close>

subsection \<open>Validation reports one error\<close>

text \<open>
  C1, as the specification states it: validation accumulates every violation, so that a
  document that lacks a required key \<open>k\<close> gets a violation for \<open>k\<close> next to all its other
  violations. It fails on the document \<^verbatim>\<open>{"name": "db"}\<close> under the schema
  \<^verbatim>\<open>{"required": ["host", "port"]}\<close>: both \<^verbatim>\<open>host\<close> and \<^verbatim>\<open>port\<close> are required and
  missing, and \<^verbatim>\<open>validate_config\<close> reports one message, about \<^verbatim>\<open>host\<close>; nothing in
  its result is about \<^verbatim>\<open>port\<close>.
\<close>

theorem validate_config_reports_host_only:
  "missing_required doc_name_only schema_host_port = [PStr ''host'', PStr ''port''] \<and>
   validate_config (files_env [] required_only) doc_name_only schema_host_port =
     ([Validate],
      Inl (ValidationError
        (''Configuration validation error: '' @ quoted ''host'' @ '' is a required property''))) \<and>
   length (violations (snd
     (validate_config (files_env [] required_only) doc_name_only schema_host_port))) = 1"
  by (simp add: validate_config_def run_defs files_env_def required_only_def
      missing_required_def required_keys_def doc_name_only_def schema_host_port_def quoted_def)

text \<open>
  C1, amended: \<^verbatim>\<open>validate_config\<close> makes one call to the library's \<^verbatim>\<open>validate\<close>, which
  stops at the first error it chooses to raise. When the library returns, so does
  \<^verbatim>\<open>validate_config\<close>; when it raises, \<^verbatim>\<open>validate_config\<close> raises one exception in
  its place (a \<^verbatim>\<open>ValidationError\<close> with the prefixed message, or a plain \<^verbatim>\<open>Exception\<close>).
  Its result therefore holds at most one violation, for every document and schema.
\<close>

theorem validate_config_single_error:
  "validate_config env c s =
     ([Validate],
      (case jsonschema_validate env c s of
         Inr u \<Rightarrow> Inr ()
       | Inl e \<Rightarrow> Inl (validate_except e))) \<and>
   length (violations (snd (validate_config env c s))) \<le> 1"
proof -
  have eq: "validate_config env c s =
     ([Validate],
      (case jsonschema_validate env c s of
         Inr u \<Rightarrow> Inr ()
       | Inl e \<Rightarrow> Inl (validate_except e)))"
    by (simp add: validate_config_def run_defs split: sum.splits)
  have "length (violations r) \<le> 1" for r :: "exc + unit"
    by (cases r rule: violations.cases) simp_all
  with eq show ?thesis by blast
qed

subsection \<open>The insecure-default checks on a dict\<close>

text \<open>
  C2, as the specification states it: a document with both \<^verbatim>\<open>password: password\<close> and
  \<^verbatim>\<open>admin_password: admin\<close> yields two findings. The checks are an
  \<^verbatim>\<open>if\<close>/\<^verbatim>\<open>elif\<close>/\<^verbatim>\<open>else\<close> chain: on that document only the first warning is logged.
\<close>

theorem both_defaults_one_finding:
  "insecure_checks doc_both_defaults = ([Log WARNING password_warning], Inr ()) \<and>
   findings (fst (insecure_checks doc_both_defaults)) = [password_warning]"
  by (simp add: doc_both_defaults_def insecure_checks_def has_default_def run_defs
      findings_def password_warning_def admin_password_warning_def)

text \<open>
  C2, amended: for every dict that holds both \<^verbatim>\<open>password: password\<close> and
  \<^verbatim>\<open>admin_password: admin\<close>, the checks log exactly one finding, the warning about the
  default password, and return; the default admin password is not reported.
\<close>

theorem both_defaults_password_finding:
  assumes "map_of kvs (PStr ''password'') = Some (PStr ''password'')"
    and "map_of kvs (PStr ''admin_password'') = Some (PStr ''admin'')"
  shows "insecure_checks (PDict kvs) = ([Log WARNING password_warning], Inr ()) \<and>
         findings (fst (insecure_checks (PDict kvs))) = [password_warning]"
  using assms
  by (simp add: insecure_checks_def has_default_dict run_defs findings_def)

theorem both_defaults_password_finding_witness:
  "map_of [(PStr ''admin_password'', PStr ''admin''), (PStr ''password'', PStr ''password'')]
     (PStr ''password'') = Some (PStr ''password'') \<and>
   map_of [(PStr ''admin_password'', PStr ''admin''), (PStr ''password'', PStr ''password'')]
     (PStr ''admin_password'') = Some (PStr ''admin'') \<and>
   findings (fst (insecure_checks
     (PDict [(PStr ''admin_password'', PStr ''admin''), (PStr ''password'', PStr ''password'')])))
     = [password_warning]"
  using both_defaults_password_finding
    [of "[(PStr ''admin_password'', PStr ''admin''), (PStr ''password'', PStr ''password'')]"]
  by (simp add: findings_def)

text \<open>
  C3: on \<^verbatim>\<open>{"password": "password"}\<close> the checks log one finding, the warning of the
  password rule; on \<^verbatim>\<open>{"password": "S3cure!"}\<close> they log no finding (the one record is
  the information that no default password was found). A rule matches a dict exactly
  when the dict maps the rule's key to the rule's string.
\<close>

theorem password_rule_examples:
  "insecure_checks (PDict [(PStr ''password'', PStr ''password'')]) =
     ([Log WARNING password_warning], Inr ()) \<and>
   findings (fst (insecure_checks (PDict [(PStr ''password'', PStr ''password'')]))) =
     [password_warning] \<and>
   insecure_checks (PDict [(PStr ''password'', PStr ''S3cure!'')]) =
     ([Log INFO no_default_info], Inr ()) \<and>
   findings (fst (insecure_checks (PDict [(PStr ''password'', PStr ''S3cure!'')]))) = [] \<and>
   has_default (PDict kvs) k v = Inr (map_of kvs (PStr k) = Some (PStr v))"
  by (simp add: insecure_checks_def has_default_dict run_defs findings_def)

subsection \<open>Loading a schema\<close>

text \<open>
  C4, as the specification states it: parsing a schema fails on a node whose \<^verbatim>\<open>type\<close>
  is not a recognized type name. \<^verbatim>\<open>load_schema_file\<close> decodes the JSON and looks at
  nothing in it: the schema \<^verbatim>\<open>{"type": "strng"}\<close> is loaded and returned.
\<close>

theorem load_schema_file_accepts_strng:
  "load_schema_file (files_env [(''schema.json'', Text schema_strng)] required_only) ''schema.json'' =
     ([Exists ''schema.json'', Open ''schema.json'', JsonLoad], Inr schema_strng)"
  by (simp add: load_schema_file_def run_defs files_env_def)

text \<open>
  C4, amended: on a file that exists and opens, \<^verbatim>\<open>load_schema_file\<close> fails with a
  \<^verbatim>\<open>JSONDecodeError\<close> when the JSON is malformed and returns every decoded schema as it
  is, whatever its \<^verbatim>\<open>type\<close> values. A schema that the validation library rejects with
  an exception of its own (not a \<^verbatim>\<open>ValidationError\<close>) is a failure of
  \<^verbatim>\<open>validate_config\<close>, which raises a plain \<^verbatim>\<open>Exception\<close> for it.
\<close>

theorem load_schema_file_decodes_only:
  assumes "path_exists env p" and "open_file env p = Inr f"
  shows "(json_load env f = Inr s \<longrightarrow>
            load_schema_file env p = ([Exists p, Open p, JsonLoad], Inr s)) \<and>
         (json_load env f = Inl (JSONDecodeError m loc) \<longrightarrow>
            load_schema_file env p =
              ([Exists p, Open p, JsonLoad],
               Inl (JSONDecodeError (''Error parsing JSON schema file: '' @ m @ loc) loc))) \<and>
         (jsonschema_validate env c s = Inl (OtherError m') \<longrightarrow>
            validate_config env c s =
              ([Validate],
               Inl (Exception (''An unexpected error occurred during validation: '' @ m'))))"
  using assms
  by (simp add: load_schema_file_def validate_config_def run_defs)

theorem load_schema_file_decodes_only_witness:
  "load_schema_file
     (files_env [(''schema.json'', Text schema_strng), (''bad.json'', Malformed)] checks_root_type)
     ''schema.json'' =
     ([Exists ''schema.json'', Open ''schema.json'', JsonLoad], Inr schema_strng) \<and>
   load_schema_file
     (files_env [(''schema.json'', Text schema_strng), (''bad.json'', Malformed)] checks_root_type)
     ''bad.json'' =
     ([Exists ''bad.json'', Open ''bad.json'', JsonLoad],
      Inl (JSONDecodeError
        (''Error parsing JSON schema file: '' @ ''Expecting value'' @ '': line 1 column 1 (char 0)'')
        '': line 1 column 1 (char 0)'')) \<and>
   validate_config
     (files_env [(''schema.json'', Text schema_strng), (''bad.json'', Malformed)] checks_root_type)
     doc_name_only schema_strng =
     ([Validate],
      Inl (Exception (''An unexpected error occurred during validation: '' @
        quoted ''strng'' @ '' is not valid under any of the given schemas'')))"
proof -
  let ?env = "files_env [(''schema.json'', Text schema_strng), (''bad.json'', Malformed)]
    checks_root_type"
  have e1: "path_exists ?env ''schema.json''" and o1: "open_file ?env ''schema.json'' = Inr (Text schema_strng)"
    by (simp_all add: files_env_def)
  have e2: "path_exists ?env ''bad.json''" and o2: "open_file ?env ''bad.json'' = Inr Malformed"
    by (simp_all add: files_env_def)
  have j1: "json_load ?env (Text schema_strng) = Inr schema_strng"
    by (simp add: files_env_def)
  have j2: "json_load ?env Malformed =
      Inl (JSONDecodeError ''Expecting value'' '': line 1 column 1 (char 0)'')"
    by (simp add: files_env_def)
  have v: "jsonschema_validate ?env doc_name_only schema_strng =
      Inl (OtherError (quoted ''strng'' @ '' is not valid under any of the given schemas''))"
    by (simp add: files_env_def checks_root_type_def schema_strng_def type_names_def)
  from load_schema_file_decodes_only [OF e1 o1, of schema_strng _ _ doc_name_only] j1 v
  have a: "load_schema_file ?env ''schema.json'' =
      ([Exists ''schema.json'', Open ''schema.json'', JsonLoad], Inr schema_strng)"
    and c: "validate_config ?env doc_name_only schema_strng =
     ([Validate],
      Inl (Exception (''An unexpected error occurred during validation: '' @
        quoted ''strng'' @ '' is not valid under any of the given schemas'')))"
    by blast+
  from load_schema_file_decodes_only [OF e2 o2, of _ "''Expecting value''"
      "'': line 1 column 1 (char 0)''"] j2
  have b: "load_schema_file ?env ''bad.json'' =
     ([Exists ''bad.json'', Open ''bad.json'', JsonLoad],
      Inl (JSONDecodeError
        (''Error parsing JSON schema file: '' @ ''Expecting value'' @ '': line 1 column 1 (char 0)'')
        '': line 1 column 1 (char 0)''))"
    by blast
  from a b c show ?thesis by blast
qed

subsection \<open>Loading a document whose type cannot be determined\<close>

lemma endswith_append: "endswith (a @ b) b"
  by (simp add: endswith_def)

text \<open>
  C5, as the specification states it: with no \<^verbatim>\<open>--type\<close> and a path that ends in none of
  \<^verbatim>\<open>.yaml\<close>, \<^verbatim>\<open>.yml\<close>, \<^verbatim>\<open>.json\<close>, the run fails with the unsupported-format error
  before it attempts to open the file. The type is determined inside the
  \<^verbatim>\<open>with open(...)\<close> block: the existing file \<^verbatim>\<open>settings.conf\<close> is opened first, and
  the \<^verbatim>\<open>ValueError\<close> raised then leaves \<^verbatim>\<open>load_config_file\<close> as a plain \<^verbatim>\<open>Exception\<close>.
\<close>

theorem load_config_file_opens_settings_conf:
  "load_config_file (files_env [(''settings.conf'', Text doc_name_only)] required_only)
     ''settings.conf'' None =
     ([Exists ''settings.conf'', Open ''settings.conf''],
      Inl (Exception (''An unexpected error occurred while loading the configuration: '' @
        ''Could not determine the file type. Please specify with --type'')))"
  by (simp add: load_config_file_def run_defs files_env_def detect_type_def endswith_def)

text \<open>
  C5, amended: with no \<^verbatim>\<open>--type\<close> and a path that ends in none of \<^verbatim>\<open>.yaml\<close>,
  \<^verbatim>\<open>.yml\<close>, \<^verbatim>\<open>.json\<close>, \<^verbatim>\<open>load_config_file\<close> always fails and never calls a parser. It
  checks first that the path exists and stops there when it does not; otherwise it
  opens the file, and only then, when the file did open, fails for the undetermined
  type, with an error whose text ends with the request to specify \<^verbatim>\<open>--type\<close>.
\<close>

theorem undetermined_type_never_parses:
  assumes "\<not> endswith p ''.yaml''" and "\<not> endswith p ''.yml''" and "\<not> endswith p ''.json''"
  shows "fst (load_config_file env p None) =
           (if path_exists env p then [Exists p, Open p] else [Exists p]) \<and>
         isl (snd (load_config_file env p None)) \<and>
         (path_exists env p \<and> \<not> isl (open_file env p) \<longrightarrow>
            endswith (py_str (projl (snd (load_config_file env p None)))) undetermined_type)"
  using assms
    endswith_append [of "''An unexpected error occurred while loading the configuration: ''"
      undetermined_type]
  by (cases "open_file env p")
     (simp_all add: load_config_file_def run_defs detect_type_def undetermined_type_def)

theorem undetermined_type_never_parses_witness:
  "\<not> endswith ''settings.conf'' ''.yaml'' \<and> \<not> endswith ''settings.conf'' ''.yml'' \<and>
   \<not> endswith ''settings.conf'' ''.json'' \<and>
   path_exists (files_env [(''settings.conf'', Text doc_name_only)] required_only)
     ''settings.conf'' \<and>
   \<not> isl (open_file (files_env [(''settings.conf'', Text doc_name_only)] required_only)
     ''settings.conf'') \<and>
   fst (load_config_file (files_env [(''settings.conf'', Text doc_name_only)] required_only)
     ''settings.conf'' None) = [Exists ''settings.conf'', Open ''settings.conf''] \<and>
   isl (snd (load_config_file (files_env [(''settings.conf'', Text doc_name_only)] required_only)
     ''settings.conf'' None)) \<and>
   endswith (py_str (projl (snd
     (load_config_file (files_env [(''settings.conf'', Text doc_name_only)] required_only)
       ''settings.conf'' None)))) undetermined_type"
proof -
  let ?env = "files_env [(''settings.conf'', Text doc_name_only)] required_only"
  have s: "\<not> endswith ''settings.conf'' ''.yaml''" "\<not> endswith ''settings.conf'' ''.yml''"
    "\<not> endswith ''settings.conf'' ''.json''"
    by (simp_all add: endswith_def)
  have x: "path_exists ?env ''settings.conf''" "\<not> isl (open_file ?env ''settings.conf'')"
    by (simp_all add: files_env_def)
  from undetermined_type_never_parses [OF s, of ?env] s x show ?thesis
    by simp
qed

subsection \<open>Documents that are not dicts\<close>

text \<open>
  C6: for every parsed document the insecure-default checks return a result and never
  fail. The checks apply \<^verbatim>\<open>in\<close> and a subscript to whatever the parser returned, and
  the docstring of \<^verbatim>\<open>load_config_file\<close> promises a dict, which no code ensures. On the
  document \<^verbatim>\<open>null\<close> (also what an empty YAML file parses to) the membership test raises
  \<^verbatim>\<open>TypeError\<close>, and on the list \<^verbatim>\<open>["password"]\<close> the subscript does; the run logs an
  unexpected error and exits with status 1.
\<close>

theorem checks_fail_on_non_dict:
  "insecure_checks PNone = ([], Inl (not_iterable ''NoneType'')) \<and>
   insecure_checks (PList [PStr ''password'']) =
     ([], Inl (TypeError ''list indices must be integers or slices, not str'')) \<and>
   main (files_env [(''config.json'', Text PNone)] required_only) args_config_json =
     [SetLevel INFO, Exists ''config.json'', Open ''config.json'', JsonLoad,
      Log DEBUG ''Configuration loaded successfully from: config.json'',
      Log WARNING skipping_warning,
      Log ERROR (''An unexpected error occurred: '' @ py_str (not_iterable ''NoneType'')),
      Exit 1]"
  by (simp add: insecure_checks_def has_default_def run_defs main_def main_try_def
      load_config_file_def files_env_def detect_type_def endswith_def args_config_json_def
      schema_given_def not_iterable_def)

subsection \<open>Whole runs\<close>

lemma findings_Nil: "findings [] = []"
  by (simp add: findings_def)

lemma findings_Cons: "findings (ev # tr) = finding_of ev @ findings tr"
  by (simp add: findings_def)

lemma findings_append: "findings (tr @ tr') = findings tr @ findings tr'"
  by (simp add: findings_def)

lemma findings_quiet: "(\<And>ev. ev \<in> set tr \<Longrightarrow> finding_of ev = []) \<Longrightarrow> findings tr = []"
  by (induction tr) (simp_all add: findings_Nil findings_Cons)

lemma load_config_file_quiet:
  assumes "ev \<in> set (fst (load_config_file env p t))"
  shows "finding_of ev = [] \<and> ev \<noteq> Validate \<and> ev \<noteq> Log lv m"
  using assms load_config_file_events [of env p t] by auto

lemma load_schema_file_quiet:
  assumes "ev \<in> set (fst (load_schema_file env p))"
  shows "finding_of ev = [] \<and> ev \<noteq> Validate \<and> ev \<noteq> Log lv m"
  using assms load_schema_file_events [of env p] by auto

lemma insecure_checks_quiet:
  "Validate \<notin> set (fst (insecure_checks c)) \<and>
   Log INFO valid_info \<notin> set (fst (insecure_checks c)) \<and>
   snd (insecure_checks c) \<noteq> Inl (ValidationError m)"
  using insecure_checks_cases [of c]
  by (auto simp: valid_info_def no_default_info_def)

text \<open>
  C7: a run without a schema path (\<^verbatim>\<open>args.schema_file\<close> is \<^verbatim>\<open>None\<close>, or empty) never
  calls the validation library, never logs that the configuration is valid, and ends
  its \<^verbatim>\<open>try\<close> body with no violation; whenever the document loads, the run logs the
  warning that validation is skipped.
\<close>

theorem no_schema_unvalidated:
  assumes "\<not> schema_given a"
  shows "Validate \<notin> set (main env a) \<and>
         \<not> validated (main env a) \<and>
         violations (snd (main_try env a)) = [] \<and>
         (\<not> isl (snd (load_config_file env (arg_config_file a) (arg_type a))) \<longrightarrow>
            Log WARNING skipping_warning \<in> set (main env a))"
proof -
  obtain tr r where L: "load_config_file env (arg_config_file a) (arg_type a) = (tr, r)"
    by (cases "load_config_file env (arg_config_file a) (arg_type a)")
  have q: "ev \<noteq> Validate \<and> ev \<noteq> Log lv m" if "ev \<in> set tr" for ev lv m
    using that load_config_file_quiet [of ev env "arg_config_file a" "arg_type a"] L by simp
  have nv: "r \<noteq> Inl (ValidationError m)" for m
    using load_config_file_not_validation [of env "arg_config_file a" "arg_type a" m] L by simp
  show ?thesis
  proof (cases r)
    case (Inl e)
    with L have T: "main_try env a = (tr, Inl e)"
      by (simp add: main_try_load_fails)
    have "violations (Inl e :: exc + unit) = []"
      using nv Inl by (intro violations_empty) auto
    with T L Inl q show ?thesis
      by (auto simp: main_def validated_def)
  next
    case (Inr c)
    with L assms have T: "main_try env a =
       (tr @ [Log DEBUG (''Configuration loaded successfully from: '' @ arg_config_file a),
              Log WARNING skipping_warning] @ fst (insecure_checks c),
        snd (insecure_checks c))"
      by (simp add: main_try_no_schema)
    have "violations (snd (insecure_checks c)) = []"
      using insecure_checks_quiet [of c] by (intro violations_empty) auto
    with T L Inr q insecure_checks_quiet [of c] show ?thesis
      by (auto simp: main_def validated_def split: sum.splits)
  qed
qed

theorem no_schema_unvalidated_witness:
  "\<not> schema_given args_no_schema \<and>
   \<not> isl (snd (load_config_file (files_env [(''config.yaml'', Text doc_both_defaults)] required_only)
       (arg_config_file args_no_schema) (arg_type args_no_schema))) \<and>
   Validate \<notin> set (main (files_env [(''config.yaml'', Text doc_both_defaults)] required_only)
       args_no_schema) \<and>
   \<not> validated (main (files_env [(''config.yaml'', Text doc_both_defaults)] required_only)
       args_no_schema) \<and>
   violations (snd (main_try (files_env [(''config.yaml'', Text doc_both_defaults)] required_only)
       args_no_schema)) = [] \<and>
   Log WARNING skipping_warning \<in>
     set (main (files_env [(''config.yaml'', Text doc_both_defaults)] required_only)
       args_no_schema)"
proof -
  let ?env = "files_env [(''config.yaml'', Text doc_both_defaults)] required_only"
  have h: "\<not> schema_given args_no_schema"
    by (simp add: schema_given_def args_no_schema_def)
  have l: "\<not> isl (snd (load_config_file ?env (arg_config_file args_no_schema)
      (arg_type args_no_schema)))"
    by (simp add: load_config_file_def run_defs files_env_def detect_type_def endswith_def
        args_no_schema_def)
  from no_schema_unvalidated [OF h, of ?env] h l show ?thesis
    by blast
qed

text \<open>
  C8: when loading the document fails, or the document loads and loading the schema
  fails, the run stops there: after the effects of the loading it logs the one error
  and exits with status 1. The validation library is never called, and nothing of the
  insecure-default checks is logged: no finding and no "no default password" record.
\<close>

theorem load_failure_aborts:
  assumes "snd (load_config_file env (arg_config_file a) (arg_type a)) = Inl e \<or>
           (\<not> isl (snd (load_config_file env (arg_config_file a) (arg_type a))) \<and>
            schema_given a \<and>
            snd (load_schema_file env (the (arg_schema_file a))) = Inl e)"
  shows "main env a =
           SetLevel (arg_log_level a) #
           fst (load_config_file env (arg_config_file a) (arg_type a)) @
           (if isl (snd (load_config_file env (arg_config_file a) (arg_type a))) then []
            else Log DEBUG (''Configuration loaded successfully from: '' @ arg_config_file a) #
                 fst (load_schema_file env (the (arg_schema_file a)))) @
           [Log ERROR (main_except e), Exit 1] \<and>
         Validate \<notin> set (main env a) \<and>
         \<not> validated (main env a) \<and>
         findings (main env a) = [] \<and>
         Log INFO no_default_info \<notin> set (main env a)"
proof -
  obtain tr r where L: "load_config_file env (arg_config_file a) (arg_type a) = (tr, r)"
    by (cases "load_config_file env (arg_config_file a) (arg_type a)")
  obtain tr' r' where S: "load_schema_file env (the (arg_schema_file a)) = (tr', r')"
    by (cases "load_schema_file env (the (arg_schema_file a))")
  have q: "finding_of ev = []" if "ev \<in> set tr" for ev
    using that load_config_file_quiet [of ev env "arg_config_file a" "arg_type a"] L by simp
  have q': "finding_of ev = []" if "ev \<in> set tr'" for ev
    using that load_schema_file_quiet [of ev env "the (arg_schema_file a)"] S by simp
  have f: "findings tr = []" "findings tr' = []"
    using q q' by (simp_all add: findings_quiet)
  have nv: "Validate \<notin> set tr" "Validate \<notin> set tr'"
    using load_config_file_events [of env "arg_config_file a" "arg_type a"]
      load_schema_file_events [of env "the (arg_schema_file a)"] L S by auto
  have nl: "Log lv m \<notin> set tr" "Log lv m \<notin> set tr'" for lv m
    using load_config_file_events [of env "arg_config_file a" "arg_type a"]
      load_schema_file_events [of env "the (arg_schema_file a)"] L S by auto
  from assms L S consider
      (doc) "r = Inl e"
    | (schema) c where "r = Inr c" "schema_given a" "r' = Inl e"
    by (cases r) auto
  then show ?thesis
  proof cases
    case doc
    with L have "main_try env a = (tr, Inl e)"
      by (simp add: main_try_load_fails)
    with L doc f nv nl show ?thesis
      by (simp add: main_def validated_def findings_Cons findings_append findings_Nil)
  next
    case schema
    with L S have "main_try env a =
        (tr @ [Log DEBUG (''Configuration loaded successfully from: '' @ arg_config_file a)]
           @ tr', Inl e)"
      by (simp add: main_try_schema_fails)
    with L S schema f nv nl show ?thesis
      by (simp add: main_def validated_def findings_Cons findings_append findings_Nil)
  qed
qed

theorem load_failure_aborts_witness:
  "main (files_env [(''config.yaml'', Malformed)] required_only) args_with_schema =
     [SetLevel INFO, Exists ''config.yaml'', Open ''config.yaml'', YamlLoad,
      Log ERROR ''Error parsing YAML file: mapping values are not allowed here'', Exit 1] \<and>
   main (files_env [(''config.yaml'', Text doc_both_defaults), (''schema.json'', Malformed)]
       required_only) args_with_schema =
     [SetLevel INFO, Exists ''config.yaml'', Open ''config.yaml'', YamlLoad,
      Log DEBUG ''Configuration loaded successfully from: config.yaml'',
      Exists ''schema.json'', Open ''schema.json'', JsonLoad,
      Log ERROR
        ''Error parsing JSON schema file: Expecting value: line 1 column 1 (char 0): line 1 column 1 (char 0)'',
      Exit 1] \<and>
   findings (main (files_env [(''config.yaml'', Text doc_both_defaults), (''schema.json'', Malformed)]
       required_only) args_with_schema) = []"
proof -
  let ?env1 = "files_env [(''config.yaml'', Malformed)] required_only"
  let ?env2 = "files_env [(''config.yaml'', Text doc_both_defaults), (''schema.json'', Malformed)]
    required_only"
  let ?e1 = "YAMLError ''Error parsing YAML file: mapping values are not allowed here''"
  let ?e2 = "JSONDecodeError
    ''Error parsing JSON schema file: Expecting value: line 1 column 1 (char 0)''
    '': line 1 column 1 (char 0)''"
  have l1: "load_config_file ?env1 (arg_config_file args_with_schema)
      (arg_type args_with_schema) =
      ([Exists ''config.yaml'', Open ''config.yaml'', YamlLoad], Inl ?e1)"
    by (simp add: load_config_file_def run_defs files_env_def detect_type_def endswith_def
        args_with_schema_def)
  have l2: "load_config_file ?env2 (arg_config_file args_with_schema)
      (arg_type args_with_schema) =
      ([Exists ''config.yaml'', Open ''config.yaml'', YamlLoad], Inr doc_both_defaults)"
    by (simp add: load_config_file_def run_defs files_env_def detect_type_def endswith_def
        args_with_schema_def)
  have g: "schema_given args_with_schema"
    by (simp add: schema_given_def args_with_schema_def)
  have s2: "load_schema_file ?env2 (the (arg_schema_file args_with_schema)) =
      ([Exists ''schema.json'', Open ''schema.json'', JsonLoad], Inl ?e2)"
    by (simp add: load_schema_file_def run_defs files_env_def args_with_schema_def)
  have a1: "snd (load_config_file ?env1 (arg_config_file args_with_schema)
      (arg_type args_with_schema)) = Inl ?e1 \<or>
      (\<not> isl (snd (load_config_file ?env1 (arg_config_file args_with_schema)
          (arg_type args_with_schema))) \<and>
       schema_given args_with_schema \<and>
       snd (load_schema_file ?env1 (the (arg_schema_file args_with_schema))) = Inl ?e1)"
    using l1 by simp
  have a2: "snd (load_config_file ?env2 (arg_config_file args_with_schema)
      (arg_type args_with_schema)) = Inl ?e2 \<or>
      (\<not> isl (snd (load_config_file ?env2 (arg_config_file args_with_schema)
          (arg_type args_with_schema))) \<and>
       schema_given args_with_schema \<and>
       snd (load_schema_file ?env2 (the (arg_schema_file args_with_schema))) = Inl ?e2)"
    using l2 s2 g by simp
  have m1: "main ?env1 args_with_schema =
     [SetLevel INFO, Exists ''config.yaml'', Open ''config.yaml'', YamlLoad,
      Log ERROR ''Error parsing YAML file: mapping values are not allowed here'', Exit 1]"
    using load_failure_aborts [OF a1] l1 by (simp add: args_with_schema_def)
  have m2: "main ?env2 args_with_schema =
     [SetLevel INFO, Exists ''config.yaml'', Open ''config.yaml'', YamlLoad,
      Log DEBUG ''Configuration loaded successfully from: config.yaml'',
      Exists ''schema.json'', Open ''schema.json'', JsonLoad,
      Log ERROR
        ''Error parsing JSON schema file: Expecting value: line 1 column 1 (char 0): line 1 column 1 (char 0)'',
      Exit 1]"
    using load_failure_aborts [OF a2] l2 s2 by (simp add: args_with_schema_def)
  have f2: "findings (main ?env2 args_with_schema) = []"
    using load_failure_aborts [OF a2] by blast
  from m1 m2 f2 show ?thesis
    by blast
qed

subsection \<open>The order of the checks on a path\<close>

text \<open>
  C9: \<^verbatim>\<open>load_config_file\<close> and \<^verbatim>\<open>load_schema_file\<close> test that the path exists before
  anything else. For a path that does not exist they raise \<^verbatim>\<open>FileNotFoundError\<close> after
  that one test, whatever the type given and whatever the ending of the path: the file
  is not opened, its type is not determined and nothing is parsed.
\<close>

theorem missing_file_first:
  assumes "\<not> path_exists env p"
  shows "load_config_file env p t =
           ([Exists p], Inl (FileNotFoundError (''Configuration file not found: '' @ p))) \<and>
         load_schema_file env p =
           ([Exists p], Inl (FileNotFoundError (''Schema file not found: '' @ p)))"
  using assms by (simp add: load_config_file_missing load_schema_file_missing)

theorem missing_file_first_witness:
  "\<not> path_exists (files_env [] required_only) ''settings.conf'' \<and>
   \<not> endswith ''settings.conf'' ''.yaml'' \<and> \<not> endswith ''settings.conf'' ''.yml'' \<and>
   \<not> endswith ''settings.conf'' ''.json'' \<and>
   load_config_file (files_env [] required_only) ''settings.conf'' None =
     ([Exists ''settings.conf''],
      Inl (FileNotFoundError ''Configuration file not found: settings.conf'')) \<and>
   load_schema_file (files_env [] required_only) ''settings.conf'' =
     ([Exists ''settings.conf''],
      Inl (FileNotFoundError ''Schema file not found: settings.conf''))"
proof -
  have h: "\<not> path_exists (files_env [] required_only) ''settings.conf''"
    by (simp add: files_env_def)
  from missing_file_first [OF h, of None] h show ?thesis
    by (simp add: endswith_def)
qed

subsection \<open>Only the keys of the root\<close>

text \<open>
  C10: the checks look the two keys up in the dict at the root and nowhere else. When
  the root dict does not map \<^verbatim>\<open>password\<close> to \<^verbatim>\<open>"password"\<close> nor \<^verbatim>\<open>admin_password\<close> to
  \<^verbatim>\<open>"admin"\<close>, they log that no default password was found and report no finding,
  whatever the values nested in the document hold.
\<close>

theorem only_root_keys_checked:
  assumes "map_of kvs (PStr ''password'') \<noteq> Some (PStr ''password'')"
    and "map_of kvs (PStr ''admin_password'') \<noteq> Some (PStr ''admin'')"
  shows "insecure_checks (PDict kvs) = ([Log INFO no_default_info], Inr ()) \<and>
         findings (fst (insecure_checks (PDict kvs))) = []"
  using assms
  by (simp add: insecure_checks_def has_default_dict run_defs findings_def)

theorem only_root_keys_checked_witness:
  "map_of doc_nested_defaults (PStr ''password'') \<noteq> Some (PStr ''password'') \<and>
   map_of doc_nested_defaults (PStr ''admin_password'') \<noteq> Some (PStr ''admin'') \<and>
   insecure_checks (PDict doc_nested_defaults) = ([Log INFO no_default_info], Inr ()) \<and>
   findings (fst (insecure_checks (PDict doc_nested_defaults))) = []"
proof -
  have h: "map_of doc_nested_defaults (PStr ''password'') \<noteq> Some (PStr ''password'')"
    "map_of doc_nested_defaults (PStr ''admin_password'') \<noteq> Some (PStr ''admin'')"
    by (simp_all add: doc_nested_defaults_def)
  from only_root_keys_checked [OF h] h show ?thesis
    by blast
qed

end
